theory Spec2Isabelle
  imports Main "HOL-Library.Sublist"
begin

section \<open>JavaScript values, strings and the clock\<close>

text \<open>
  The program is JavaScript (\<^verbatim>\<open>src/procore-lv-inventory.js\<close>). Numbers are modelled as
  \<^typ>\<open>int\<close>: quantities and costs are whole numbers, on which JavaScript's arithmetic is
  exact below \<open>2^53\<close>. Strings are ASCII character lists. A \<^verbatim>\<open>Date\<close> is the number of
  milliseconds it holds. The system clock is a function giving the value of its \<open>n\<close>-th
  reading; the state counts the readings taken so far, so that every
  \<^verbatim>\<open>new Date()\<close> and \<^verbatim>\<open>Date.now()\<close> of the source is one reading.
\<close>

type_synonym clock = "nat \<Rightarrow> nat"

datatype jsvalue =
    JUndefined
  | JNull
  | JString string
  | JNumber int
  | JBoolean bool
  | JDate nat
  | JObject

text \<open>Truthiness, as \<^verbatim>\<open>!v\<close>, \<^verbatim>\<open>v || d\<close> and \<^verbatim>\<open>v && w\<close> test it.\<close>

fun truthy :: "jsvalue \<Rightarrow> bool" where
  "truthy JUndefined = False"
| "truthy JNull = False"
| "truthy (JString s) = (s \<noteq> [])"
| "truthy (JNumber n) = (n \<noteq> 0)"
| "truthy (JBoolean b) = b"
| "truthy (JDate t) = True"
| "truthy JObject = True"

definition toLowerChar :: "char \<Rightarrow> char" where
  "toLowerChar c =
     (case map_of (zip ''ABCDEFGHIJKLMNOPQRSTUVWXYZ'' ''abcdefghijklmnopqrstuvwxyz'') c of
        Some l \<Rightarrow> l
      | None \<Rightarrow> c)"

definition toLowerCase :: "string \<Rightarrow> string" where
  "toLowerCase s = map toLowerChar s"

fun startsWith :: "string \<Rightarrow> string \<Rightarrow> bool" where
  "startsWith s [] = True"
| "startsWith [] (c # t) = False"
| "startsWith (x # s) (c # t) = (x = c \<and> startsWith s t)"

text \<open>\<^verbatim>\<open>s.includes(t)\<close>: \<open>t\<close> occurs in \<open>s\<close> as a contiguous run of characters.\<close>

fun includesStr :: "string \<Rightarrow> string \<Rightarrow> bool" where
  "includesStr [] t = (t = [])"
| "includesStr (x # s) t = (startsWith (x # s) t \<or> includesStr s t)"

definition digitChar :: "nat \<Rightarrow> char" where
  "digitChar n = ''0123456789'' ! (n mod 10)"

function natToString :: "nat \<Rightarrow> string" where
  "natToString n = (if n < 10 then [digitChar n] else natToString (n div 10) @ [digitChar n])"
  by pat_completeness auto
termination
  by (relation "measure (\<lambda>n. n)") auto

declare natToString.simps [simp del]

definition numberToString :: "int \<Rightarrow> string" where
  "numberToString i =
     (if i < 0 then CHR ''-'' # natToString (nat (- i)) else natToString (nat i))"

text \<open>
  \<^verbatim>\<open>v.toString()\<close>. The rendering of a \<^verbatim>\<open>Date\<close> is the host's, taken as the parameter
  \<open>dateToString\<close>. The source calls \<^verbatim>\<open>toString\<close> only on truthy values, so the two
  equations for \<open>undefined\<close> and \<open>null\<close> (on which JavaScript raises) are never reached.
\<close>

fun toString :: "(nat \<Rightarrow> string) \<Rightarrow> jsvalue \<Rightarrow> string" where
  "toString dateToString JUndefined = ''undefined''"
| "toString dateToString JNull = ''null''"
| "toString dateToString (JString s) = s"
| "toString dateToString (JNumber n) = numberToString n"
| "toString dateToString (JBoolean b) = (if b then ''true'' else ''false'')"
| "toString dateToString (JDate t) = dateToString t"
| "toString dateToString JObject = ''[object Object]''"

text \<open>\<^verbatim>\<open>s || d\<close> on a string and on a number.\<close>

definition orString :: "string \<Rightarrow> string \<Rightarrow> string" where
  "orString s d = (if s = [] then d else s)"

definition orNumber :: "int \<Rightarrow> int \<Rightarrow> int" where
  "orNumber n d = (if n = 0 then d else n)"

section \<open>Inventory records\<close>

text \<open>
  The object handed to the constructor of \<^verbatim>\<open>LVInventoryItem\<close>, and the object
  \<^verbatim>\<open>toJSON\<close> returns. The callers in the source (the item form and
  \<^verbatim>\<open>createInventoryItemFromPOLine\<close>) always give the classification, quantity, location
  and cost properties; \<^verbatim>\<open>id\<close>, the project id, the two dates and the custom fields may
  be absent.
\<close>

record itemData =
  d_id :: "string option"
  d_projectId :: "int option"
  d_category :: string
  d_subCategory :: string
  d_manufacturer :: string
  d_partNumber :: string
  d_description :: string
  d_unitOfMeasure :: string
  d_quantityAvailable :: int
  d_quantityAllocated :: int
  d_reorderThreshold :: int
  d_reorderQuantity :: int
  d_location :: string
  d_cost :: int
  d_lastUpdated :: "nat option"
  d_createdAt :: "nat option"
  d_customFields :: "(string \<times> string) list option"

text \<open>An \<^verbatim>\<open>LVInventoryItem\<close>; \<open>None\<close> in \<open>item_id\<close> and \<open>projectId\<close> is \<^verbatim>\<open>null\<close>.\<close>

record LVInventoryItem =
  item_id :: "string option"
  projectId :: "int option"
  category :: string
  subCategory :: string
  manufacturer :: string
  partNumber :: string
  description :: string
  unitOfMeasure :: string
  quantityAvailable :: int
  quantityAllocated :: int
  reorderThreshold :: int
  reorderQuantity :: int
  location :: string
  cost :: int
  lastUpdated :: nat
  createdAt :: nat
  customFields :: "(string \<times> string) list"

text \<open>
  The state: the manager's \<^verbatim>\<open>items\<close> array, the number of clock readings taken, and the
  browser's local storage (the inventory saved under each project id).
\<close>

record inventoryState =
  items :: "LVInventoryItem list"
  clockReads :: nat
  localStorage :: "int \<Rightarrow> itemData list option"

datatype error =
    NotFound "string option"
  | InsufficientStock
  | UpstreamUnavailable

text \<open>
  The constructor. \<open>n\<close> is the number of clock readings so far; the result carries the
  new count, since \<^verbatim>\<open>data.lastUpdated || new Date()\<close> reads the clock only when the
  property is absent.
\<close>

definition new_LVInventoryItem :: "clock \<Rightarrow> itemData \<Rightarrow> nat \<Rightarrow> LVInventoryItem \<times> nat" where
  "new_LVInventoryItem clk data n =
     (let (lu, n1) = (case d_lastUpdated data of Some t \<Rightarrow> (t, n) | None \<Rightarrow> (clk n, Suc n));
          (ca, n2) = (case d_createdAt data of Some t \<Rightarrow> (t, n1) | None \<Rightarrow> (clk n1, Suc n1))
      in (\<lparr> item_id = (case d_id data of Some s \<Rightarrow> (if s = [] then None else Some s) | None \<Rightarrow> None),
            projectId = (case d_projectId data of Some p \<Rightarrow> (if p = 0 then None else Some p) | None \<Rightarrow> None),
            category = orString (d_category data) [],
            subCategory = orString (d_subCategory data) [],
            manufacturer = orString (d_manufacturer data) [],
            partNumber = orString (d_partNumber data) [],
            description = orString (d_description data) [],
            unitOfMeasure = orString (d_unitOfMeasure data) [],
            quantityAvailable = orNumber (d_quantityAvailable data) 0,
            quantityAllocated = orNumber (d_quantityAllocated data) 0,
            reorderThreshold = orNumber (d_reorderThreshold data) 0,
            reorderQuantity = orNumber (d_reorderQuantity data) 0,
            location = orString (d_location data) [],
            cost = orNumber (d_cost data) 0,
            lastUpdated = lu,
            createdAt = ca,
            customFields = (case d_customFields data of Some c \<Rightarrow> c | None \<Rightarrow> []) \<rparr>, n2))"

definition totalQuantity :: "LVInventoryItem \<Rightarrow> int" where
  "totalQuantity item = quantityAvailable item + quantityAllocated item"

definition needsReorder :: "LVInventoryItem \<Rightarrow> bool" where
  "needsReorder item = (quantityAvailable item \<le> reorderThreshold item)"

definition toJSON :: "LVInventoryItem \<Rightarrow> itemData" where
  "toJSON item =
     \<lparr> d_id = item_id item,
       d_projectId = projectId item,
       d_category = category item,
       d_subCategory = subCategory item,
       d_manufacturer = manufacturer item,
       d_partNumber = partNumber item,
       d_description = description item,
       d_unitOfMeasure = unitOfMeasure item,
       d_quantityAvailable = quantityAvailable item,
       d_quantityAllocated = quantityAllocated item,
       d_reorderThreshold = reorderThreshold item,
       d_reorderQuantity = reorderQuantity item,
       d_location = location item,
       d_cost = cost item,
       d_lastUpdated = Some (lastUpdated item),
       d_createdAt = Some (createdAt item),
       d_customFields = Some (customFields item) \<rparr>"

section \<open>The inventory manager\<close>

text \<open>\<^verbatim>\<open>Array.prototype.findIndex\<close>: the first index whose element satisfies \<open>P\<close>.\<close>

fun findIndex :: "('a \<Rightarrow> bool) \<Rightarrow> 'a list \<Rightarrow> nat option" where
  "findIndex P [] = None"
| "findIndex P (x # xs) = (if P x then Some 0 else map_option Suc (findIndex P xs))"

text \<open>
  \<^verbatim>\<open>saveInventory\<close>: a failure of the upstream call is caught and logged; the local
  copy is always written.
\<close>

definition saveInventory :: "int \<Rightarrow> inventoryState \<Rightarrow> inventoryState" where
  "saveInventory pid st = st\<lparr> localStorage := (localStorage st)(pid := Some (map toJSON (items st))) \<rparr>"

text \<open>
  \<^verbatim>\<open>addItem\<close>: the id is \<^verbatim>\<open>Date.now().toString()\<close>, then \<^verbatim>\<open>createdAt\<close> and
  \<^verbatim>\<open>lastUpdated\<close> are two more readings of the clock, in the order of the object literal.
\<close>

definition addItem :: "clock \<Rightarrow> itemData \<Rightarrow> inventoryState \<Rightarrow> LVInventoryItem \<times> inventoryState" where
  "addItem clk data st =
     (let n = clockReads st;
          (newItem, n') = new_LVInventoryItem clk
             (data\<lparr> d_id := Some (natToString (clk n)),
                    d_createdAt := Some (clk (n + 1)),
                    d_lastUpdated := Some (clk (n + 2)) \<rparr>) (n + 3)
      in (newItem, st\<lparr> items := items st @ [newItem], clockReads := n' \<rparr>))"

text \<open>
  \<^verbatim>\<open>adjustQuantity\<close>. \<^verbatim>\<open>find\<close> yields the first item with the id; the item is changed
  in place, so the array holds the changed item at the index where it was found. Both
  \<^verbatim>\<open>throw\<close>s come before any assignment: the state is returned as it was.
\<close>

definition adjustQuantity ::
  "clock \<Rightarrow> string option \<Rightarrow> int \<Rightarrow> bool \<Rightarrow> inventoryState \<Rightarrow> (error + LVInventoryItem) \<times> inventoryState" where
  "adjustQuantity clk itemId quantityChange isAllocation st =
     (case findIndex (\<lambda>item. item_id item = itemId) (items st) of
        None \<Rightarrow> (Inl (NotFound itemId), st)
      | Some i \<Rightarrow>
          (let item = items st ! i in
           case
             (if isAllocation then
                (if quantityChange > 0 \<and> quantityAvailable item < quantityChange
                 then Inl InsufficientStock
                 else Inr (item\<lparr> quantityAvailable := quantityAvailable item - quantityChange,
                                 quantityAllocated := quantityAllocated item + quantityChange \<rparr>))
              else
                (let item0 = item\<lparr> quantityAvailable := quantityAvailable item + quantityChange \<rparr>
                 in if quantityAvailable item0 < 0
                    then Inr (item0\<lparr> quantityAvailable := 0 \<rparr>)
                    else Inr item0))
           of
             Inl e \<Rightarrow> (Inl e, st)
           | Inr item1 \<Rightarrow>
               (let item2 = item1\<lparr> lastUpdated := clk (clockReads st) \<rparr>
                in (Inr item2,
                    st\<lparr> items := (items st)[i := item2], clockReads := Suc (clockReads st) \<rparr>))))"

text \<open>
  A sequence of calls of \<^verbatim>\<open>adjustQuantity\<close>, each with its item id, its change and its
  mode. A call that raises leaves the state as it was, and the next call runs on it.
\<close>

fun adjustAll :: "clock \<Rightarrow> (string option \<times> int \<times> bool) list \<Rightarrow> inventoryState \<Rightarrow> inventoryState" where
  "adjustAll clk [] st = st"
| "adjustAll clk ((itemId, quantityChange, isAllocation) # calls) st =
     adjustAll clk calls (snd (adjustQuantity clk itemId quantityChange isAllocation st))"

subsection \<open>Searching and reporting\<close>

text \<open>
  The properties of an item that \<^verbatim>\<open>item[key]\<close> can read: the seventeen data
  properties and the two getters. Criteria keys range over these names.
\<close>

datatype field =
    F_id | F_projectId | F_category | F_subCategory | F_manufacturer | F_partNumber
  | F_description | F_unitOfMeasure | F_quantityAvailable | F_quantityAllocated
  | F_reorderThreshold | F_reorderQuantity | F_location | F_cost | F_lastUpdated
  | F_createdAt | F_customFields | F_totalQuantity | F_needsReorder

fun getField :: "LVInventoryItem \<Rightarrow> field \<Rightarrow> jsvalue" where
  "getField item F_id = (case item_id item of None \<Rightarrow> JNull | Some s \<Rightarrow> JString s)"
| "getField item F_projectId = (case projectId item of None \<Rightarrow> JNull | Some p \<Rightarrow> JNumber p)"
| "getField item F_category = JString (category item)"
| "getField item F_subCategory = JString (subCategory item)"
| "getField item F_manufacturer = JString (manufacturer item)"
| "getField item F_partNumber = JString (partNumber item)"
| "getField item F_description = JString (description item)"
| "getField item F_unitOfMeasure = JString (unitOfMeasure item)"
| "getField item F_quantityAvailable = JNumber (quantityAvailable item)"
| "getField item F_quantityAllocated = JNumber (quantityAllocated item)"
| "getField item F_reorderThreshold = JNumber (reorderThreshold item)"
| "getField item F_reorderQuantity = JNumber (reorderQuantity item)"
| "getField item F_location = JString (location item)"
| "getField item F_cost = JNumber (cost item)"
| "getField item F_lastUpdated = JDate (lastUpdated item)"
| "getField item F_createdAt = JDate (createdAt item)"
| "getField item F_customFields = JObject"
| "getField item F_totalQuantity = JNumber (totalQuantity item)"
| "getField item F_needsReorder = JBoolean (needsReorder item)"

text \<open>
  The body of the filter callback of \<^verbatim>\<open>searchItems\<close>: the loop over
  \<^verbatim>\<open>Object.entries(criteria)\<close>, leaving with \<open>false\<close> at the first entry that fails.
\<close>

fun matchesCriteria :: "(nat \<Rightarrow> string) \<Rightarrow> LVInventoryItem \<Rightarrow> (field \<times> string) list \<Rightarrow> bool" where
  "matchesCriteria dateToString item [] = True"
| "matchesCriteria dateToString item ((key, v) # rest) =
     (if \<not> truthy (getField item key)
         \<or> \<not> includesStr (toLowerCase (toString dateToString (getField item key))) (toLowerCase v)
      then False
      else matchesCriteria dateToString item rest)"

definition searchItems ::
  "(nat \<Rightarrow> string) \<Rightarrow> (field \<times> string) list \<Rightarrow> LVInventoryItem list \<Rightarrow> LVInventoryItem list" where
  "searchItems dateToString criteria its = filter (\<lambda>item. matchesCriteria dateToString item criteria) its"

record categorySummary =
  cat_count :: nat
  cat_value :: int

record inventoryReport =
  totalItems :: nat
  totalValue :: int
  lowStockItems :: nat
  byCategory :: "string \<Rightarrow> categorySummary option"
  report_items :: "itemData list"

definition generateInventoryReport ::
  "(nat \<Rightarrow> string) \<Rightarrow> (field \<times> string) list \<Rightarrow> LVInventoryItem list \<Rightarrow> inventoryReport" where
  "generateInventoryReport dateToString filters its =
     (let reportItems = (if length filters > 0 then searchItems dateToString filters its else its)
      in \<lparr> totalItems = length reportItems,
           totalValue = foldl (\<lambda>sum item. sum + cost item * totalQuantity item) 0 reportItems,
           lowStockItems = length (filter needsReorder reportItems),
           byCategory =
             foldl (\<lambda>m item.
                      (let cur = (case m (category item) of
                                    Some c \<Rightarrow> c
                                  | None \<Rightarrow> \<lparr> cat_count = 0, cat_value = 0 \<rparr>)
                       in m(category item :=
                              Some (cur\<lparr> cat_count := cat_count cur + 1,
                                         cat_value := cat_value cur + cost item * totalQuantity item \<rparr>))))
                   (\<lambda>c. None) reportItems,
           report_items = map toJSON reportItems \<rparr>)"

section \<open>Reconciliation with purchase orders\<close>

record purchaseOrder =
  po_id :: int
  title :: "string option"
  po_description :: "string option"
  status :: string

record lineItem =
  li_description :: string
  part_number :: "string option"
  li_manufacturer :: "string option"
  quantity :: int
  received_quantity :: "int option"
  li_unit :: "string option"
  unit_cost :: "int option"

definition lvKeywords :: "string list" where
  "lvKeywords =
     [''low voltage'', ''lv'', ''communications'', ''data'', ''telecom'', ''network'', ''cable'']"

text \<open>\<^verbatim>\<open>s?.toLowerCase().includes(keyword)\<close>: \<open>undefined\<close>, which is falsy, when \<open>s\<close> is absent.\<close>

definition optIncludes :: "string option \<Rightarrow> string \<Rightarrow> bool" where
  "optIncludes s keyword =
     (case s of None \<Rightarrow> False | Some t \<Rightarrow> includesStr (toLowerCase t) keyword)"

definition isLowVoltagePO :: "purchaseOrder \<Rightarrow> bool" where
  "isLowVoltagePO po =
     list_ex (\<lambda>keyword. optIncludes (title po) keyword \<or> optIncludes (po_description po) keyword)
       lvKeywords"

text \<open>The callback of \<^verbatim>\<open>find\<close> in \<^verbatim>\<open>findMatchingInventoryItem\<close>.\<close>

definition lineItemMatches :: "lineItem \<Rightarrow> LVInventoryItem \<Rightarrow> bool" where
  "lineItemMatches li item =
     ((case part_number li of None \<Rightarrow> False | Some pn \<Rightarrow> pn \<noteq> [] \<and> partNumber item = pn)
      \<or> includesStr (toLowerCase (description item)) (toLowerCase (li_description li)))"

definition findMatchingInventoryItem :: "lineItem \<Rightarrow> LVInventoryItem list \<Rightarrow> LVInventoryItem option" where
  "findMatchingInventoryItem li its = find (lineItemMatches li) its"

definition determineCategoryFromDescription :: "string \<Rightarrow> string" where
  "determineCategoryFromDescription d =
     (let desc = toLowerCase d in
      if includesStr desc ''cable'' \<or> includesStr desc ''wire'' then ''Cable''
      else if includesStr desc ''connector'' \<or> includesStr desc ''terminal'' then ''Connectors''
      else if includesStr desc ''camera'' \<or> includesStr desc ''sensor'' then ''Devices''
      else if includesStr desc ''switch'' \<or> includesStr desc ''router''
                \<or> includesStr desc ''access point'' then ''Network Equipment''
      else if includesStr desc ''card reader'' \<or> includesStr desc ''door'' then ''Access Control''
      else if includesStr desc ''speaker'' \<or> includesStr desc ''microphone''
                \<or> includesStr desc ''projector'' then ''Audio/Visual''
      else if includesStr desc ''alarm'' \<or> includesStr desc ''motion''
                \<or> includesStr desc ''security'' then ''Security''
      else if includesStr desc ''phone'' \<or> includesStr desc ''telecom'' then ''Telecommunications''
      else if includesStr desc ''fiber'' then ''Fiber Optics''
      else if includesStr desc ''tool'' then ''Tools''
      else if includesStr desc ''bracket'' \<or> includesStr desc ''mount'' then ''Mounting Hardware''
      else if includesStr desc ''conduit'' \<or> includesStr desc ''raceway''
                \<or> includesStr desc ''tray'' then ''Conduit & Raceways''
      else ''Other'')"

text \<open>
  \<^verbatim>\<open>createInventoryItemFromPOLine\<close>. \<^verbatim>\<open>Math.floor(q * 0.2)\<close> is the floor of a fifth of
  \<open>q\<close>, which on a whole number \<open>q\<close> is \<open>q div 5\<close> (\<open>div\<close> on \<^typ>\<open>int\<close> rounds down).
\<close>

definition createInventoryItemFromPOLine :: "lineItem \<Rightarrow> int \<Rightarrow> itemData" where
  "createInventoryItemFromPOLine li pid =
     \<lparr> d_id = None,
       d_projectId = Some pid,
       d_category = determineCategoryFromDescription (li_description li),
       d_subCategory = [],
       d_manufacturer = (case li_manufacturer li of None \<Rightarrow> [] | Some m \<Rightarrow> orString m []),
       d_partNumber = (case part_number li of None \<Rightarrow> [] | Some pn \<Rightarrow> orString pn []),
       d_description = li_description li,
       d_unitOfMeasure = (case li_unit li of None \<Rightarrow> ''Each'' | Some u \<Rightarrow> orString u ''Each''),
       d_quantityAvailable = quantity li,
       d_quantityAllocated = 0,
       d_reorderThreshold = quantity li div 5,
       d_reorderQuantity = quantity li,
       d_location = ''From PO'',
       d_cost = (case unit_cost li of None \<Rightarrow> 0 | Some c \<Rightarrow> orNumber c 0),
       d_lastUpdated = None,
       d_createdAt = None,
       d_customFields = None \<rparr>"

text \<open>
  The set \<^verbatim>\<open>updatedItems\<close> holds what \<^verbatim>\<open>.id\<close> gave: the id of a matched item, and for a
  created item the \<^verbatim>\<open>id\<close> property of the plain object built from the line, which has
  none (\<open>undefined\<close>). It is kept as a list without repetitions.
\<close>

definition idValue :: "string option \<Rightarrow> jsvalue" where
  "idValue i = (case i of None \<Rightarrow> JNull | Some s \<Rightarrow> JString s)"

definition approvedOrClosed :: "purchaseOrder \<Rightarrow> bool" where
  "approvedOrClosed po = (status po = ''Approved'' \<or> status po = ''Closed'')"

text \<open>One iteration of the inner loop of \<^verbatim>\<open>syncWithPurchaseOrders\<close>.\<close>

definition syncLineItem ::
  "clock \<Rightarrow> int \<Rightarrow> purchaseOrder \<Rightarrow> lineItem \<Rightarrow> jsvalue list \<Rightarrow> inventoryState
     \<Rightarrow> (error + jsvalue list) \<times> inventoryState" where
  "syncLineItem clk pid po li updatedItems st =
     (case findMatchingInventoryItem li (items st) of
        Some matchedItem \<Rightarrow>
          (if approvedOrClosed po then
             (let quantityChange =
                    quantity li - (case received_quantity li of None \<Rightarrow> 0 | Some r \<Rightarrow> orNumber r 0)
              in if quantityChange > 0 then
                   (case adjustQuantity clk (item_id matchedItem) quantityChange False st of
                      (Inl e, st') \<Rightarrow> (Inl e, st')
                    | (Inr _, st') \<Rightarrow>
                        (Inr (List.insert (idValue (item_id matchedItem)) updatedItems), st'))
                 else (Inr updatedItems, st))
           else (Inr updatedItems, st))
      | None \<Rightarrow>
          (if approvedOrClosed po then
             (let newItem = createInventoryItemFromPOLine li pid;
                  (_, st') = addItem clk newItem st
              in (Inr (List.insert JUndefined updatedItems), st'))
           else (Inr updatedItems, st)))"

fun syncLineItems ::
  "clock \<Rightarrow> int \<Rightarrow> purchaseOrder \<Rightarrow> lineItem list \<Rightarrow> jsvalue list \<Rightarrow> inventoryState
     \<Rightarrow> (error + jsvalue list) \<times> inventoryState" where
  "syncLineItems clk pid po [] updatedItems st = (Inr updatedItems, st)"
| "syncLineItems clk pid po (li # rest) updatedItems st =
     (case syncLineItem clk pid po li updatedItems st of
        (Inl e, st') \<Rightarrow> (Inl e, st')
      | (Inr updatedItems', st') \<Rightarrow> syncLineItems clk pid po rest updatedItems' st')"

text \<open>
  The outer loop. \<open>fetchLineItems\<close> is the answer of the vendor API for the line items of
  a purchase order: a list, or the failure that the request raises.
\<close>

fun syncPurchaseOrders ::
  "clock \<Rightarrow> int \<Rightarrow> (int \<Rightarrow> error + lineItem list) \<Rightarrow> purchaseOrder list \<Rightarrow> jsvalue list
     \<Rightarrow> inventoryState \<Rightarrow> (error + jsvalue list) \<times> inventoryState" where
  "syncPurchaseOrders clk pid fetchLineItems [] updatedItems st = (Inr updatedItems, st)"
| "syncPurchaseOrders clk pid fetchLineItems (po # rest) updatedItems st =
     (if \<not> isLowVoltagePO po then syncPurchaseOrders clk pid fetchLineItems rest updatedItems st
      else
        (case fetchLineItems (po_id po) of
           Inl e \<Rightarrow> (Inl e, st)
         | Inr lineItems \<Rightarrow>
             (case syncLineItems clk pid po lineItems updatedItems st of
                (Inl e, st') \<Rightarrow> (Inl e, st')
              | (Inr updatedItems', st') \<Rightarrow>
                  syncPurchaseOrders clk pid fetchLineItems rest updatedItems' st')))"

text \<open>
  \<^verbatim>\<open>syncWithPurchaseOrders\<close>: any error is logged and raised again, with the changes
  already made to the items left in place.
\<close>

definition syncWithPurchaseOrders ::
  "clock \<Rightarrow> int \<Rightarrow> (error + purchaseOrder list) \<Rightarrow> (int \<Rightarrow> error + lineItem list)
     \<Rightarrow> inventoryState \<Rightarrow> (error + nat) \<times> inventoryState" where
  "syncWithPurchaseOrders clk pid fetchPurchaseOrders fetchLineItems st =
     (case fetchPurchaseOrders of
        Inl e \<Rightarrow> (Inl e, st)
      | Inr purchaseOrders \<Rightarrow>
          (case syncPurchaseOrders clk pid fetchLineItems purchaseOrders [] st of
             (Inl e, st') \<Rightarrow> (Inl e, st')
           | (Inr updatedItems, st') \<Rightarrow>
               (if length updatedItems > 0
                then (Inr (length updatedItems), saveInventory pid st')
                else (Inr 0, st'))))"

section \<open>Concrete inputs\<close>

text \<open>A clock, a record and a state on which the operations are run below.\<close>

definition exampleClock :: clock where
  "exampleClock n = 1700000000000 + n"

definition exampleItem :: "string \<Rightarrow> int \<Rightarrow> int \<Rightarrow> LVInventoryItem" where
  "exampleItem i available allocated =
     \<lparr> item_id = Some i, projectId = Some 7, category = ''Cable'', subCategory = ''Cat6'',
       manufacturer = ''Acme'', partNumber = ''C6-1000'', description = ''Cat6 plenum cable'',
       unitOfMeasure = ''Feet'', quantityAvailable = available, quantityAllocated = allocated,
       reorderThreshold = 2, reorderQuantity = 10, location = ''Warehouse'', cost = 10,
       lastUpdated = 5, createdAt = 5, customFields = [] \<rparr>"

text \<open>A clock that is read several times within one millisecond.\<close>

definition sameMillisecondClock :: clock where
  "sameMillisecondClock n = 1700000000000"

definition exampleState :: "LVInventoryItem list \<Rightarrow> inventoryState" where
  "exampleState its = \<lparr> items = its, clockReads = 0, localStorage = (\<lambda>p. None) \<rparr>"

definition exampleLine :: "string \<Rightarrow> string option \<Rightarrow> int \<Rightarrow> int option \<Rightarrow> lineItem" where
  "exampleLine d pn q rq =
     \<lparr> li_description = d, part_number = pn, li_manufacturer = None, quantity = q,
       received_quantity = rq, li_unit = None, unit_cost = Some 3 \<rparr>"

definition examplePO :: "string \<Rightarrow> string \<Rightarrow> purchaseOrder" where
  "examplePO t s = \<lparr> po_id = 41, title = Some t, po_description = None, status = s \<rparr>"

section \<open>The matching rule in the words of the specification\<close>

text \<open>
  A line item matches a record when the line item has a non-empty part number equal to the
  record's part number, or the record's description contains the line item's description
  as a substring, letter case ignored. \<^const>\<open>sublist\<close> is the library's contiguous
  sublist relation.
\<close>

definition spec_lineItemMatches :: "lineItem \<Rightarrow> LVInventoryItem \<Rightarrow> bool" where
  "spec_lineItemMatches li r =
     ((part_number li \<noteq> None \<and> part_number li \<noteq> Some [] \<and> part_number li = Some (partNumber r))
      \<or> sublist (map toLowerChar (li_description li)) (map toLowerChar (description r)))"

section \<open>Quantity adjustment\<close>

lemma findIndex_first:
  "P r \<Longrightarrow> \<forall>x\<in>set pre. \<not> P x \<Longrightarrow> findIndex P (pre @ r # post) = Some (length pre)"
  by (induction pre) auto

lemma findIndex_Some:
  "findIndex P xs = Some i \<Longrightarrow> i < length xs \<and> P (xs ! i) \<and> (\<forall>j<i. \<not> P (xs ! j))"
proof (induction xs arbitrary: i)
  case Nil
  then show ?case by simp
next
  case (Cons x xs)
  show ?case
  proof (cases "P x")
    case True
    with Cons.prems show ?thesis by simp
  next
    case False
    with Cons.prems obtain k where k: "findIndex P xs = Some k" "i = Suc k"
      by auto
    from Cons.IH[OF k(1)] have ih: "k < length xs" "P (xs ! k)" "\<forall>j<k. \<not> P (xs ! j)"
      by simp_all
    have "\<forall>j<Suc k. \<not> P ((x # xs) ! j)"
    proof (intro allI impI)
      fix j assume "j < Suc k"
      then show "\<not> P ((x # xs) ! j)" using False ih(3) by (cases j) auto
    qed
    with ih k show ?thesis by simp
  qed
qed



text \<open>
  Claim C1. After any sequence of \<^verbatim>\<open>adjustQuantity\<close> calls both quantities of every record
  are expected to be non-negative. The allocation branch guards only a positive change
  against the available quantity; a negative change (the form's "deallocate") is not
  checked against the allocated quantity. On a record with nothing available and nothing
  allocated, deallocating one unit succeeds and leaves the allocated quantity at \<open>-1\<close>.
\<close>

theorem adjustQuantity_deallocate_below_zero:
  "quantityAvailable (exampleItem ''1'' 0 0) = 0 \<and> quantityAllocated (exampleItem ''1'' 0 0) = 0
   \<and> adjustQuantity exampleClock (Some ''1'') (- 1) True (exampleState [exampleItem ''1'' 0 0])
     = (Inr ((exampleItem ''1'' 1 (- 1))\<lparr> lastUpdated := 1700000000000 \<rparr>),
        (exampleState [(exampleItem ''1'' 1 (- 1))\<lparr> lastUpdated := 1700000000000 \<rparr>])\<lparr> clockReads := 1 \<rparr>)"
  by (simp add: adjustQuantity_def Let_def exampleState_def exampleItem_def exampleClock_def)







text \<open>
  Claim C6. Let \<open>r\<close> be the record its id resolves to. Whenever \<^verbatim>\<open>adjustQuantity\<close> in
  allocation mode succeeds on \<open>r\<close>, the total quantity of the record (available plus
  allocated) is what it was before the call, and the record takes the place of \<open>r\<close> in
  the store.
\<close>

theorem adjustQuantity_allocation_total:
  assumes "items st = pre @ r # post"
    and "\<forall>x\<in>set pre. item_id x \<noteq> item_id r"
    and "adjustQuantity clk (item_id r) delta True st = (Inr r', st')"
  shows "totalQuantity r' = totalQuantity r \<and> items st' = pre @ r' # post"
proof -
  have "findIndex (\<lambda>item. item_id item = item_id r) (items st) = Some (length pre)"
    using assms(1,2) by (simp add: findIndex_first)
  moreover have "items st ! length pre = r"
    using assms(1) by simp
  moreover have "(items st)[length pre := y] = pre @ y # post" for y
    using assms(1) by simp
  ultimately show ?thesis
    using assms(3) by (auto simp: adjustQuantity_def Let_def totalQuantity_def split: if_splits)
qed

theorem adjustQuantity_allocation_total_witness:
  "totalQuantity ((exampleItem ''1'' 1 2)\<lparr> lastUpdated := 1700000000000 \<rparr>)
     = totalQuantity (exampleItem ''1'' 3 0)
   \<and> items ((exampleState [(exampleItem ''1'' 1 2)\<lparr> lastUpdated := 1700000000000 \<rparr>])\<lparr> clockReads := 1 \<rparr>)
     = [] @ (exampleItem ''1'' 1 2)\<lparr> lastUpdated := 1700000000000 \<rparr> # []"
proof -
  have run: "adjustQuantity exampleClock (item_id (exampleItem ''1'' 3 0)) 2 True
               (exampleState [exampleItem ''1'' 3 0])
             = (Inr ((exampleItem ''1'' 1 2)\<lparr> lastUpdated := 1700000000000 \<rparr>),
                (exampleState [(exampleItem ''1'' 1 2)\<lparr> lastUpdated := 1700000000000 \<rparr>])\<lparr> clockReads := 1 \<rparr>)"
    by (simp add: adjustQuantity_def Let_def exampleState_def exampleItem_def exampleClock_def)
  have shape: "items (exampleState [exampleItem ''1'' 3 0]) = [] @ exampleItem ''1'' 3 0 # []"
    by (simp add: exampleState_def)
  have first: "\<forall>x\<in>set []. item_id x \<noteq> item_id (exampleItem ''1'' 3 0)"
    by simp
  show ?thesis
    by (rule adjustQuantity_allocation_total [OF shape first run])
qed

lemma adjustQuantity_available_nonneg:
  assumes "list_all (\<lambda>r. 0 \<le> quantityAvailable r) (items st)"
  shows "list_all (\<lambda>r. 0 \<le> quantityAvailable r)
           (items (snd (adjustQuantity clk itemId quantityChange isAllocation st)))"
proof (cases "findIndex (\<lambda>item. item_id item = itemId) (items st)")
  case None
  then show ?thesis
    using assms by (simp add: adjustQuantity_def)
next
  case (Some i)
  then have i: "i < length (items st)"
    by (simp add: findIndex_Some)
  then have old: "0 \<le> quantityAvailable (items st ! i)"
    using assms by (simp add: list_all_length)
  have upd: "list_all (\<lambda>r. 0 \<le> quantityAvailable r) ((items st)[i := y])"
    if "0 \<le> quantityAvailable y" for y
    using assms that by (auto simp: list_all_iff dest: set_update_subset_insert [THEN subsetD])
  show ?thesis
    using Some old assms
    by (auto simp: adjustQuantity_def Let_def intro!: upd)
qed

text \<open>
  The half of the invariant that the code keeps: when no record has a negative available
  quantity, none has one after any sequence of \<^verbatim>\<open>adjustQuantity\<close> calls, in either mode
  and with any changes, whether the calls succeed or raise.
\<close>

theorem adjustAll_available_nonneg:
  "list_all (\<lambda>r. 0 \<le> quantityAvailable r) (items st)
   \<Longrightarrow> list_all (\<lambda>r. 0 \<le> quantityAvailable r) (items (adjustAll clk calls st))"
proof (induction calls arbitrary: st)
  case Nil
  then show ?case by simp
next
  case (Cons c calls)
  obtain itemId quantityChange isAllocation where c: "c = (itemId, quantityChange, isAllocation)"
    by (cases c)
  show ?case
    unfolding c adjustAll.simps
    by (rule Cons.IH) (rule adjustQuantity_available_nonneg [OF Cons.prems])
qed

theorem adjustAll_available_nonneg_witness:
  "list_all (\<lambda>r. 0 \<le> quantityAvailable r)
     (items (adjustAll exampleClock
        [(Some ''1'', - 5, False), (Some ''1'', 4, True), (Some ''2'', 2, True), (Some ''2'', - 3, True)]
        (exampleState [exampleItem ''1'' 3 0, exampleItem ''2'' 4 0])))"
  by (rule adjustAll_available_nonneg) (simp add: exampleState_def exampleItem_def)

section \<open>Reorder flag\<close>

text \<open>
  Claim C7. \<^verbatim>\<open>needsReorder\<close> is true exactly when the available quantity is at most the
  reorder threshold; when the two are equal it is true.
\<close>

theorem needsReorder_iff:
  "needsReorder item = (quantityAvailable item \<le> reorderThreshold item)
   \<and> (quantityAvailable item = reorderThreshold item \<longrightarrow> needsReorder item)"
  by (simp add: needsReorder_def)

theorem needsReorder_iff_witness:
  "needsReorder (exampleItem ''1'' 2 0) = (quantityAvailable (exampleItem ''1'' 2 0) \<le> reorderThreshold (exampleItem ''1'' 2 0))
   \<and> needsReorder (exampleItem ''1'' 2 0)"
  using needsReorder_iff [of "exampleItem ''1'' 2 0"]
  by (simp add: exampleItem_def)

section \<open>Strings\<close>

lemma startsWith_prefix: "startsWith s t = prefix t s"
  by (induction s t rule: startsWith.induct) auto

lemma includesStr_sublist: "includesStr s t = sublist t s"
proof (induction s)
  case Nil
  show ?case by simp
next
  case (Cons x s)
  then show ?case
    by (simp add: startsWith_prefix sublist_Cons_right)
qed

lemma includesStr_Nil [simp]: "includesStr s []"
  by (simp add: includesStr_sublist)

lemma toLowerCase_simps [simp]:
  "toLowerCase [] = []" "toLowerCase (c # s) = toLowerChar c # toLowerCase s"
  by (simp_all add: toLowerCase_def)

lemma sublist_map: "sublist xs ys \<Longrightarrow> sublist (map f xs) (map f ys)"
proof -
  assume "sublist xs ys"
  then obtain ps ss where "ys = ps @ xs @ ss"
    by (auto simp: sublist_def)
  then have "map f ys = map f ps @ map f xs @ map f ss"
    by simp
  then show ?thesis
    unfolding sublist_def by blast
qed

section \<open>Matching a line item\<close>

lemma lineItemMatches_spec: "lineItemMatches li r = spec_lineItemMatches li r"
  by (cases "part_number li")
     (auto simp: lineItemMatches_def spec_lineItemMatches_def includesStr_sublist toLowerCase_def)

text \<open>
  Claim C4. The matcher returns a record exactly when some record satisfies the matching
  rule of the specification (equal non-empty part number, or the record's description
  containing the line item's, case ignored), and the record it returns is the first such
  record in the order of the list: every record before it fails the rule.
\<close>

theorem findMatchingInventoryItem_first_match:
  "(findMatchingInventoryItem li its = None) = (\<not> (\<exists>r\<in>set its. spec_lineItemMatches li r))
   \<and> (\<forall>r. findMatchingInventoryItem li its = Some r \<longrightarrow>
         (\<exists>pre post. its = pre @ r # post \<and> spec_lineItemMatches li r
            \<and> (\<forall>x\<in>set pre. \<not> spec_lineItemMatches li x)))"
proof (intro conjI allI impI)
  show "(findMatchingInventoryItem li its = None) = (\<not> (\<exists>r\<in>set its. spec_lineItemMatches li r))"
    by (auto simp: findMatchingInventoryItem_def find_None_iff lineItemMatches_spec)
next
  fix r
  assume "findMatchingInventoryItem li its = Some r"
  then obtain i where i: "i < length its" "spec_lineItemMatches li (its ! i)" "r = its ! i"
      "\<forall>j<i. \<not> spec_lineItemMatches li (its ! j)"
    by (auto simp: findMatchingInventoryItem_def find_Some_iff lineItemMatches_spec)
  have "its = take i its @ r # drop (Suc i) its"
    using i(1,3) by (simp add: id_take_nth_drop)
  moreover have "\<forall>x\<in>set (take i its). \<not> spec_lineItemMatches li x"
  proof
    fix x assume "x \<in> set (take i its)"
    then obtain j where "j < length (take i its)" "x = take i its ! j"
      by (auto simp: in_set_conv_nth)
    then show "\<not> spec_lineItemMatches li x"
      using i(4) by simp
  qed
  ultimately show "\<exists>pre post. its = pre @ r # post \<and> spec_lineItemMatches li r
            \<and> (\<forall>x\<in>set pre. \<not> spec_lineItemMatches li x)"
    using i(2,3) by blast
qed

theorem findMatchingInventoryItem_first_match_witness:
  "\<exists>pre post.
      [(exampleItem ''1'' 0 0)\<lparr> description := ''Fiber patch cord'' \<rparr>, exampleItem ''2'' 3 0, exampleItem ''3'' 4 0]
        = pre @ exampleItem ''2'' 3 0 # post
      \<and> spec_lineItemMatches (exampleLine ''CAT6'' None 10 (Some 2)) (exampleItem ''2'' 3 0)
      \<and> (\<forall>x\<in>set pre. \<not> spec_lineItemMatches (exampleLine ''CAT6'' None 10 (Some 2)) x)"
proof -
  have "findMatchingInventoryItem (exampleLine ''CAT6'' None 10 (Some 2))
          [(exampleItem ''1'' 0 0)\<lparr> description := ''Fiber patch cord'' \<rparr>, exampleItem ''2'' 3 0, exampleItem ''3'' 4 0]
        = Some (exampleItem ''2'' 3 0)"
    by (simp add: findMatchingInventoryItem_def lineItemMatches_def exampleLine_def exampleItem_def
          toLowerChar_def)
  then show ?thesis
    using findMatchingInventoryItem_first_match
      [of "exampleLine ''CAT6'' None 10 (Some 2)"
          "[(exampleItem ''1'' 0 0)\<lparr> description := ''Fiber patch cord'' \<rparr>, exampleItem ''2'' 3 0, exampleItem ''3'' 4 0]"]
    by blast
qed

text \<open>
  Claim C9. A line item with no part number and the empty description matches the first
  record of any non-empty list, so the step of the reconciliation for that line item
  creates nothing: for an approved or closed order with a positive quantity change it
  adds the change to the available quantity of the first record, and otherwise it leaves
  the state as it is.
\<close>

theorem empty_description_matches_first:
  assumes "part_number li = None"
    and "li_description li = []"
    and "items st = r # rest"
  shows "findMatchingInventoryItem li (items st) = Some r
     \<and> syncLineItem clk pid po li updatedItems st
       = (if approvedOrClosed po
             \<and> 0 < quantity li - (case received_quantity li of None \<Rightarrow> 0 | Some q \<Rightarrow> q)
          then (Inr (List.insert (idValue (item_id r)) updatedItems),
                st\<lparr> items :=
                      r\<lparr> quantityAvailable :=
                           (if quantityAvailable r + (quantity li - (case received_quantity li of None \<Rightarrow> 0 | Some q \<Rightarrow> q)) < 0
                            then 0
                            else quantityAvailable r + (quantity li - (case received_quantity li of None \<Rightarrow> 0 | Some q \<Rightarrow> q))),
                         lastUpdated := clk (clockReads st) \<rparr> # rest,
                    clockReads := Suc (clockReads st) \<rparr>)
          else (Inr updatedItems, st))"
proof -
  have found: "findMatchingInventoryItem li (items st) = Some r"
    using assms by (simp add: findMatchingInventoryItem_def lineItemMatches_def)
  have adj: "adjustQuantity clk (item_id r) d False st
      = (Inr (r\<lparr> quantityAvailable := (if quantityAvailable r + d < 0 then 0 else quantityAvailable r + d),
                 lastUpdated := clk (clockReads st) \<rparr>),
         st\<lparr> items := r\<lparr> quantityAvailable := (if quantityAvailable r + d < 0 then 0 else quantityAvailable r + d),
                          lastUpdated := clk (clockReads st) \<rparr> # rest,
             clockReads := Suc (clockReads st) \<rparr>)" for d
    using assms(3) by (simp add: adjustQuantity_def Let_def)
  have rq: "(case received_quantity li of None \<Rightarrow> 0 | Some q \<Rightarrow> orNumber q 0)
          = (case received_quantity li of None \<Rightarrow> 0 | Some q \<Rightarrow> q)"
    by (simp add: orNumber_def split: option.splits)
  show ?thesis
    unfolding syncLineItem_def found rq by (simp add: Let_def adj)
qed

theorem empty_description_matches_first_witness:
  "findMatchingInventoryItem (exampleLine [] None 10 (Some 2))
       (items (exampleState [exampleItem ''1'' 3 0, exampleItem ''2'' 4 0]))
     = Some (exampleItem ''1'' 3 0)
   \<and> syncLineItem exampleClock 7 (examplePO ''LV Cable order'' ''Closed'')
       (exampleLine [] None 10 (Some 2)) [] (exampleState [exampleItem ''1'' 3 0, exampleItem ''2'' 4 0])
     = (Inr [JString ''1''],
        (exampleState [(exampleItem ''1'' 11 0)\<lparr> lastUpdated := 1700000000000 \<rparr>, exampleItem ''2'' 4 0])
          \<lparr> clockReads := 1 \<rparr>)"
  using empty_description_matches_first
    [of "exampleLine [] None 10 (Some 2)" "exampleState [exampleItem ''1'' 3 0, exampleItem ''2'' 4 0]"
        "exampleItem ''1'' 3 0" "[exampleItem ''2'' 4 0]" exampleClock 7
        "examplePO ''LV Cable order'' ''Closed''" "[]"]
  by (simp add: exampleLine_def exampleState_def exampleItem_def examplePO_def exampleClock_def
        approvedOrClosed_def idValue_def)

section \<open>Searching and the report\<close>

lemma matchesCriteria_falsy:
  "(k, v) \<in> set criteria \<Longrightarrow> \<not> truthy (getField r k) \<Longrightarrow> \<not> matchesCriteria dts r criteria"
  by (induction criteria) (auto split: if_splits)

lemma toJSON_inject: "toJSON a = toJSON b \<Longrightarrow> a = b"
  by (cases a, cases b) (simp add: toJSON_def)

text \<open>
  Claim C10. When the criteria hold a key \<open>k\<close>, with any value, \<^verbatim>\<open>searchItems\<close> leaves out
  every record whose property \<open>k\<close> is falsy (the empty string, zero, \<open>null\<close>, \<open>false\<close>), and
  so the report made with these criteria as its filter does not list such a record.
\<close>

theorem searchItems_excludes_falsy:
  assumes "(k, v) \<in> set criteria"
    and "\<not> truthy (getField r k)"
  shows "r \<notin> set (searchItems dts criteria its)
     \<and> toJSON r \<notin> set (report_items (generateInventoryReport dts criteria its))"
proof -
  have no: "r \<notin> set (searchItems dts criteria its)"
    using matchesCriteria_falsy [OF assms] by (simp add: searchItems_def)
  have "criteria \<noteq> []"
    using assms(1) by auto
  then have "report_items (generateInventoryReport dts criteria its)
      = map toJSON (searchItems dts criteria its)"
    by (simp add: generateInventoryReport_def Let_def)
  moreover have "toJSON r \<notin> set (map toJSON (searchItems dts criteria its))"
    using no by (auto dest: toJSON_inject)
  ultimately show ?thesis
    using no by simp
qed

theorem searchItems_excludes_falsy_witness:
  "(exampleItem ''1'' 3 0)\<lparr> partNumber := [] \<rparr>
      \<notin> set (searchItems natToString [(F_partNumber, [])]
                [(exampleItem ''1'' 3 0)\<lparr> partNumber := [] \<rparr>, exampleItem ''2'' 4 0])
   \<and> toJSON ((exampleItem ''1'' 3 0)\<lparr> partNumber := [] \<rparr>)
      \<notin> set (report_items (generateInventoryReport natToString [(F_partNumber, [])]
                [(exampleItem ''1'' 3 0)\<lparr> partNumber := [] \<rparr>, exampleItem ''2'' 4 0]))"
proof (rule searchItems_excludes_falsy)
  show "(F_partNumber, []) \<in> set [(F_partNumber, [])]"
    by simp
  show "\<not> truthy (getField ((exampleItem ''1'' 3 0)\<lparr> partNumber := [] \<rparr>) F_partNumber)"
    by simp
qed

lemma foldl_add_sum_list:
  "foldl (\<lambda>sum item. sum + f item) a xs = a + sum_list (map f xs)" for a :: int
  by (induction xs arbitrary: a) simp_all

lemma searchItems_no_criteria: "searchItems dts [] its = its"
  by (simp add: searchItems_def)

text \<open>
  Claim C8. The \<^verbatim>\<open>totalValue\<close> of the report is the sum, over the records the filter
  keeps, of cost times total quantity; over three records of costs 10, 20 and 30 with
  total quantities 1, 2 and 1 it is 80.
\<close>

theorem report_totalValue:
  "totalValue (generateInventoryReport dts filters its)
     = (\<Sum>item\<leftarrow>searchItems dts filters its. cost item * totalQuantity item)
   \<and> (cost r1 = 10 \<and> totalQuantity r1 = 1 \<and> cost r2 = 20 \<and> totalQuantity r2 = 2
        \<and> cost r3 = 30 \<and> totalQuantity r3 = 1
      \<longrightarrow> totalValue (generateInventoryReport dts [] [r1, r2, r3]) = 80)"
  by (cases filters)
     (simp_all add: generateInventoryReport_def Let_def foldl_add_sum_list searchItems_no_criteria)

theorem report_totalValue_witness:
  "totalValue (generateInventoryReport natToString []
      [exampleItem ''1'' 1 0, (exampleItem ''2'' 1 1)\<lparr> cost := 20 \<rparr>, (exampleItem ''3'' 0 1)\<lparr> cost := 30 \<rparr>])
   = 80"
  using report_totalValue
    [of natToString "[]"
        "[exampleItem ''1'' 1 0, (exampleItem ''2'' 1 1)\<lparr> cost := 20 \<rparr>, (exampleItem ''3'' 0 1)\<lparr> cost := 30 \<rparr>]"
        "exampleItem ''1'' 1 0" "(exampleItem ''2'' 1 1)\<lparr> cost := 20 \<rparr>" "(exampleItem ''3'' 0 1)\<lparr> cost := 30 \<rparr>"]
  by (simp add: exampleItem_def totalQuantity_def)

section \<open>A reconciliation run\<close>

lemma title_has_cable:
  assumes "sublist ''Cable'' t"
  shows "includesStr (toLowerCase t) ''cable''"
proof -
  have "sublist (map toLowerChar ''Cable'') (map toLowerChar t)"
    using assms by (rule sublist_map)
  moreover have "map toLowerChar ''Cable'' = ''cable''"
    by (simp add: toLowerChar_def)
  ultimately show ?thesis
    by (simp add: includesStr_sublist toLowerCase_def)
qed

lemma cat6_category: "determineCategoryFromDescription ''Cat6 cable'' = ''Cable''"
  by (simp add: determineCategoryFromDescription_def toLowerChar_def)

lemma natToString_example: "natToString 1700000000000 = ''1700000000000''"
  by (simp add: natToString.simps digitChar_def)

lemma sync_example_run:
  "items (snd (syncWithPurchaseOrders exampleClock 7 (Inr [examplePO ''LV Cable order'' ''Closed''])
         (\<lambda>i. Inr [exampleLine ''Cat6 cable'' None 10 (Some 2)]) (exampleState [])))
   = [\<lparr> item_id = Some ''1700000000000'', projectId = Some 7, category = ''Cable'', subCategory = [],
       manufacturer = [], partNumber = [], description = ''Cat6 cable'',
       unitOfMeasure = ''Each'', quantityAvailable = 10, quantityAllocated = 0,
       reorderThreshold = 2, reorderQuantity = 10, location = ''From PO'', cost = 3,
       lastUpdated = 1700000000002, createdAt = 1700000000001, customFields = [] \<rparr>]"
  by (simp add: syncWithPurchaseOrders_def isLowVoltagePO_def lvKeywords_def optIncludes_def
      examplePO_def exampleLine_def exampleState_def toLowerChar_def syncLineItem_def
      findMatchingInventoryItem_def approvedOrClosed_def addItem_def new_LVInventoryItem_def
      createInventoryItemFromPOLine_def cat6_category orString_def orNumber_def Let_def
      saveInventory_def exampleClock_def natToString_example)

text \<open>
  Claim C3. Reconciling one purchase order in status Closed whose title contains "Cable",
  with one line item of quantity 10, received quantity 2, no part number and description
  "Cat6 cable", against an empty store, gives a store of exactly one record, with 10
  available, category "Cable" and reorder threshold 2; the run reports one touched record.
\<close>

theorem sync_creates_record:
  assumes "status po = ''Closed''"
    and "title po = Some t"
    and "sublist ''Cable'' t"
    and "fetchLineItems (po_id po) = Inr [li]"
    and "quantity li = 10"
    and "received_quantity li = Some 2"
    and "part_number li = None"
    and "li_description li = ''Cat6 cable''"
    and "items st = []"
  shows "\<exists>r st'. syncWithPurchaseOrders clk pid (Inr [po]) fetchLineItems st = (Inr 1, st')
           \<and> items st' = [r]
           \<and> quantityAvailable r = 10 \<and> category r = ''Cable'' \<and> reorderThreshold r = 2"
proof -
  have lv: "isLowVoltagePO po"
    using assms(2) title_has_cable [OF assms(3)]
    by (simp add: isLowVoltagePO_def lvKeywords_def optIncludes_def)
  have nomatch: "findMatchingInventoryItem li (items st) = None"
    using assms(9) by (simp add: findMatchingInventoryItem_def)
  have ok: "approvedOrClosed po"
    using assms(1) by (simp add: approvedOrClosed_def)
  obtain r st1 where add: "addItem clk (createInventoryItemFromPOLine li pid) st = (r, st1)"
    by (cases "addItem clk (createInventoryItemFromPOLine li pid) st")
  have fields: "items st1 = [r]" "quantityAvailable r = 10" "category r = ''Cable''"
      "reorderThreshold r = 2"
    using add assms(5,8,9)
    by (auto simp: addItem_def new_LVInventoryItem_def createInventoryItemFromPOLine_def Let_def
          orNumber_def orString_def cat6_category)
  have line: "syncLineItem clk pid po li [] st = (Inr [JUndefined], st1)"
    by (simp add: syncLineItem_def nomatch ok add Let_def)
  have "syncWithPurchaseOrders clk pid (Inr [po]) fetchLineItems st = (Inr 1, saveInventory pid st1)"
    by (simp add: syncWithPurchaseOrders_def lv assms(4) line)
  moreover have "items (saveInventory pid st1) = [r]"
    using fields(1) by (simp add: saveInventory_def)
  ultimately show ?thesis
    using fields by blast
qed

theorem sync_creates_record_witness:
  "\<exists>r st'. syncWithPurchaseOrders exampleClock 7 (Inr [examplePO ''LV Cable order'' ''Closed''])
              (\<lambda>i. Inr [exampleLine ''Cat6 cable'' None 10 (Some 2)]) (exampleState [])
            = (Inr 1, st')
         \<and> items st' = [r]
         \<and> quantityAvailable r = 10 \<and> category r = ''Cable'' \<and> reorderThreshold r = 2"
proof (rule sync_creates_record
    [where t = "''LV Cable order''" and li = "exampleLine ''Cat6 cable'' None 10 (Some 2)"])
  show "sublist ''Cable'' ''LV Cable order''"
    by (simp add: includesStr_sublist [symmetric])
qed (simp_all add: examplePO_def exampleLine_def exampleState_def)

subsection \<open>Records with the same id\<close>

text \<open>
  The id of a new record is the clock's reading in milliseconds. The loop of
  \<^verbatim>\<open>syncWithPurchaseOrders\<close> adds the records of one order without waiting in between, so
  two of them can be made within one millisecond: they then have the same id.
\<close>

lemma sync_same_millisecond_ids:
  "map (\<lambda>r. (item_id r, quantityAvailable r))
     (items (snd (syncWithPurchaseOrders sameMillisecondClock 7
        (Inr [examplePO ''LV Cable order'' ''Closed''])
        (\<lambda>i. Inr [exampleLine ''Cat6 cable'' None 9 None, exampleLine ''Fiber patch cord'' None 3 None])
        (exampleState []))))
   = [(Some ''1700000000000'', 9), (Some ''1700000000000'', 3)]"
  by (simp add: syncWithPurchaseOrders_def isLowVoltagePO_def lvKeywords_def optIncludes_def
      examplePO_def exampleLine_def exampleState_def toLowerChar_def syncLineItem_def
      findMatchingInventoryItem_def lineItemMatches_def approvedOrClosed_def addItem_def
      new_LVInventoryItem_def createInventoryItemFromPOLine_def orString_def orNumber_def Let_def
      saveInventory_def sameMillisecondClock_def natToString_example)

end
